theory Spec2Isabelle
  imports Main
begin

section \<open>JavaScript values, objects and the store\<close>

text \<open>
  The program is a small express application (\<^verbatim>\<open>index.ts\<close>) with a custom error
  class (\<^verbatim>\<open>utils/ApiError.ts\<close>) and an adapter for asynchronous handlers
  (\<^verbatim>\<open>utils/asyncWrapper.ts\<close>). Error values are objects that are created once and
  passed by reference, so objects live in a store: a list of objects, an address being
  an index into it. A promise is represented by the state it settles in; \<open>Pending\<close> is a
  promise that never settles. Numbers are restricted to the integers and \<open>NaN\<close>.
\<close>

type_synonym addr = nat

datatype 'a promise = Fulfilled 'a | Rejected 'a | Pending

datatype jsval =
    JUndefined
  | JNull
  | JBool bool
  | JNum int
  | JNaN
  | JStr string
  | JRef addr
  | JRes
  | JPromise "jsval promise"

text \<open>
  \<open>JRes\<close> is the response object of the request being handled (the value that
  \<^verbatim>\<open>res.status(..)\<close> and \<^verbatim>\<open>res.send(..)\<close> return). An object is the list of its
  properties, inherited ones included, the first entry for a name being the one read.
\<close>

type_synonym jsobj = "(string \<times> jsval) list"

text \<open>Truthiness, as \<^verbatim>\<open>||\<close> and \<^verbatim>\<open>if\<close> test it.\<close>

fun truthy :: "jsval \<Rightarrow> bool" where
  "truthy JUndefined = False"
| "truthy JNull = False"
| "truthy (JBool b) = b"
| "truthy (JNum n) = (n \<noteq> 0)"
| "truthy JNaN = False"
| "truthy (JStr s) = (s \<noteq> [])"
| "truthy (JRef a) = True"
| "truthy JRes = True"
| "truthy (JPromise p) = True"

definition js_or :: "jsval \<Rightarrow> jsval \<Rightarrow> jsval" where
  "js_or a b = (if truthy a then a else b)"

definition nullish :: "jsval \<Rightarrow> bool" where
  "nullish v = (v = JUndefined \<or> v = JNull)"

text \<open>The response under construction: \<^verbatim>\<open>res.statusCode\<close> and the body handed to the
  client, \<open>None\<close> as long as nothing has been sent.\<close>

record response =
  status_code :: jsval
  sent :: "jsobj option"

text \<open>
  The state of the process while it serves one request. \<open>invoked\<close> is a ghost field:
  the positions in the application's stack of the layers whose handler has been called,
  in the order of the calls. \<open>fell_through\<close> holds the value with which a request left
  the application's stack for the framework's default handler. \<open>frames\<close> is the text of
  the call-site frames that the engine puts into a captured stack trace; it is not
  specified further. \<open>env\<close> is \<^verbatim>\<open>process.env\<close>.
\<close>

record state =
  heap :: "jsobj list"
  res :: response
  console :: "jsval list list"
  exit_code :: "int option"
  fell_through :: "jsval option"
  invoked :: "nat list"
  env :: "string \<Rightarrow> string option"
  frames :: string

definition alloc :: "jsobj \<Rightarrow> state \<Rightarrow> jsval \<times> state" where
  "alloc obj st = (JRef (length (heap st)), st\<lparr>heap := heap st @ [obj]\<rparr>)"

text \<open>
  Reading a property of a value that is neither \<^verbatim>\<open>undefined\<close> nor \<^verbatim>\<open>null\<close> (on those
  the read raises a TypeError, which the callers below write out). Only the property
  names the program reads are meant: \<^verbatim>\<open>statusCode\<close>, \<^verbatim>\<open>message\<close>, \<^verbatim>\<open>stack\<close>,
  \<^verbatim>\<open>name\<close>. A primitive has none of them; the response object has \<^verbatim>\<open>statusCode\<close>.
\<close>

definition get_prop :: "state \<Rightarrow> jsval \<Rightarrow> string \<Rightarrow> jsval" where
  "get_prop st v k =
     (case v of
        JRef a \<Rightarrow>
          (if a < length (heap st)
           then (case map_of (heap st ! a) k of Some x \<Rightarrow> x | None \<Rightarrow> JUndefined)
           else JUndefined)
      | JRes \<Rightarrow> (if k = ''statusCode'' then status_code (res st) else JUndefined)
      | _ \<Rightarrow> JUndefined)"

fun set_prop :: "string \<Rightarrow> jsval \<Rightarrow> jsobj \<Rightarrow> jsobj" where
  "set_prop k v [] = [(k, v)]"
| "set_prop k v ((k', v') # ps) =
     (if k = k' then (k, v) # ps else (k', v') # set_prop k v ps)"

section \<open>Completions, promises and async functions\<close>

datatype completion = Normal jsval | Throw jsval

text \<open>\<^verbatim>\<open>Promise.resolve(v)\<close>: a promise is returned as it is, any other value becomes a
  fulfilled promise.\<close>

definition Promise_resolve :: "jsval \<Rightarrow> jsval promise" where
  "Promise_resolve v = (case v of JPromise p \<Rightarrow> p | _ \<Rightarrow> Fulfilled v)"

text \<open>
  The body of an async function completes normally, throws, or stays suspended for ever
  at an \<^verbatim>\<open>await\<close> (\<open>None\<close>). Calling the function never throws: it returns a promise
  that is rejected with what the body threw.
\<close>

type_synonym async_body = "state \<Rightarrow> completion option \<times> state"

definition async :: "async_body \<Rightarrow> state \<Rightarrow> completion \<times> state" where
  "async body st =
     (case body st of
        (None, st') \<Rightarrow> (Normal (JPromise Pending), st')
      | (Some (Throw e), st') \<Rightarrow> (Normal (JPromise (Rejected e)), st')
      | (Some (Normal v), st') \<Rightarrow> (Normal (JPromise (Promise_resolve v)), st'))"

definition await :: "jsval \<Rightarrow> (jsval \<Rightarrow> async_body) \<Rightarrow> async_body" where
  "await v k st =
     (case Promise_resolve v of
        Fulfilled x \<Rightarrow> k x st
      | Rejected e \<Rightarrow> (Some (Throw e), st)
      | Pending \<Rightarrow> (None, st))"

section \<open>The error model (utils/ApiError.ts)\<close>

text \<open>The two constants of the package \<^verbatim>\<open>http-status-codes\<close> that the program uses.\<close>

definition BAD_REQUEST :: int where
  "BAD_REQUEST = 400"

definition NOT_FOUND :: int where
  "NOT_FOUND = 404"

text \<open>The first line of a stack trace: the error's name and message.\<close>

definition error_header :: "string \<Rightarrow> string \<Rightarrow> string" where
  "error_header nm msg = (if msg = [] then nm else if nm = [] then msg else nm @ '': '' @ msg)"

text \<open>\<^verbatim>\<open>super(message)\<close>: the built-in \<^verbatim>\<open>Error\<close> constructor stores the message and a
  stack trace; \<^verbatim>\<open>name\<close> is inherited from the prototype, which \<open>nm\<close> stands for.\<close>

definition Error_super :: "string \<Rightarrow> string \<Rightarrow> state \<Rightarrow> jsobj" where
  "Error_super nm message st =
     [(''stack'', JStr (error_header nm message @ frames st)),
      (''message'', JStr message),
      (''name'', JStr nm)]"

definition prop_string :: "jsobj \<Rightarrow> string \<Rightarrow> string" where
  "prop_string obj k = (case map_of obj k of Some (JStr s) \<Rightarrow> s | _ \<Rightarrow> [])"

text \<open>\<^verbatim>\<open>Error.captureStackTrace(this, this.constructor)\<close>: stores a fresh trace in
  \<^verbatim>\<open>this.stack\<close>, headed by the object's name and message.\<close>

definition captureStackTrace :: "state \<Rightarrow> jsobj \<Rightarrow> jsobj" where
  "captureStackTrace st obj =
     set_prop ''stack''
       (JStr (error_header (prop_string obj ''name'') (prop_string obj ''message'') @ frames st)) obj"

text \<open>The constructor of \<^verbatim>\<open>ApiError\<close> (ApiError.ts, lines 5 to 10). It stores the
  value of \<^verbatim>\<open>statusCode\<close> as it is given; TypeScript gives it the type
  \<^verbatim>\<open>number\<close>, so the value is an integer \<open>JNum n\<close> or \<open>JNaN\<close>.\<close>

definition ApiError_constructor :: "jsval \<Rightarrow> string \<Rightarrow> state \<Rightarrow> jsval \<times> state" where
  "ApiError_constructor statusCode message st =
     alloc (captureStackTrace st
              (set_prop ''statusCode'' statusCode (Error_super ''Error'' message st))) st"

text \<open>\<^verbatim>\<open>new ApiError(statusCode, message)\<close> with an integer for the code\<close>

definition new_ApiError :: "int \<Rightarrow> string \<Rightarrow> state \<Rightarrow> jsval \<times> state" where
  "new_ApiError statusCode message st = ApiError_constructor (JNum statusCode) message st"

text \<open>\<^verbatim>\<open>new NotFoundError(path)\<close>\<close>

definition new_NotFoundError :: "string \<Rightarrow> state \<Rightarrow> jsval \<times> state" where
  "new_NotFoundError path st =
     new_ApiError NOT_FOUND (''The requested path '' @ path @ '' not found!'') st"

text \<open>An error raised by the runtime or the framework itself.\<close>

definition throw_builtin :: "string \<Rightarrow> string \<Rightarrow> state \<Rightarrow> completion \<times> state" where
  "throw_builtin nm message st =
     (case alloc (Error_super nm message st) st of (e, st') \<Rightarrow> (Throw e, st'))"

section \<open>Process and response primitives\<close>

definition console_log :: "jsval list \<Rightarrow> state \<Rightarrow> state" where
  "console_log args st = st\<lparr>console := console st @ [args]\<rparr>"

definition process_exit :: "int \<Rightarrow> state \<Rightarrow> state" where
  "process_exit code st = st\<lparr>exit_code := Some code\<rparr>"

text \<open>\<^verbatim>\<open>res.status(code)\<close> stores the code.\<close>

definition res_status :: "jsval \<Rightarrow> state \<Rightarrow> state" where
  "res_status code st = st\<lparr>res := (res st)\<lparr>status_code := code\<rparr>\<rparr>"

text \<open>The body as JSON text carries no property whose value is \<^verbatim>\<open>undefined\<close>.\<close>

definition JSON_fields :: "jsobj \<Rightarrow> jsobj" where
  "JSON_fields obj = filter (\<lambda>kv. snd kv \<noteq> JUndefined) obj"

text \<open>
  When the response is written, the platform reads \<^verbatim>\<open>res.statusCode\<close> as a 32-bit
  integer (\<^verbatim>\<open>statusCode |= 0\<close>). \<open>to_int32\<close> wraps an integer; \<open>status_int\<close> is
  the reading of a value: \<^verbatim>\<open>NaN\<close>, \<^verbatim>\<open>undefined\<close>, \<^verbatim>\<open>null\<close> and
  \<^verbatim>\<open>false\<close> read as 0, \<^verbatim>\<open>true\<close> as 1. Of the strings only those made of decimal
  digits are read as the number they spell; every other string, and every object, is
  read like a value that spells no number, as 0. The other spellings of a number in a
  string (sign, fraction, exponent, other bases, white space around it) are left out of
  this model.
\<close>

definition to_int32 :: "int \<Rightarrow> int" where
  "to_int32 n = (n + 2 ^ 31) mod 2 ^ 32 - 2 ^ 31"

fun decimal :: "string \<Rightarrow> int \<Rightarrow> int option" where
  "decimal [] acc = Some acc"
| "decimal (c # cs) acc =
     (let n = (of_char c :: nat)
      in if 48 \<le> n \<and> n \<le> 57 then decimal cs (10 * acc + int (n - 48)) else None)"

fun status_int :: "jsval \<Rightarrow> int" where
  "status_int (JNum n) = to_int32 n"
| "status_int (JBool b) = (if b then 1 else 0)"
| "status_int (JStr s) = (case decimal s 0 of Some n \<Rightarrow> to_int32 n | None \<Rightarrow> 0)"
| "status_int v = 0"

text \<open>The statuses whose response carries no body: \<^verbatim>\<open>res.send\<close> drops the body for
  204, 205 and 304, the HTTP layer below it for the statuses from 100 to 199.\<close>

definition bodiless :: "int \<Rightarrow> bool" where
  "bodiless n = ((100 \<le> n \<and> n \<le> 199) \<or> n = 204 \<or> n = 205 \<or> n = 304)"

text \<open>
  \<^verbatim>\<open>res.send(body)\<close> with an object: the response leaves as JSON. A second send for
  the same request raises, since the headers are gone. A status outside 100 to 999
  raises a RangeError when the head of the response is written, and nothing is sent
  (the error's message, which also names the code, is cut short here). Otherwise the
  response leaves with the status as read, and with the body unless the status carries
  none. The headers of the request are not part of the request context, so the answer
  304 to a conditional request does not occur.
\<close>

definition res_send :: "jsobj \<Rightarrow> state \<Rightarrow> completion \<times> state" where
  "res_send body st =
     (if sent (res st) \<noteq> None
      then throw_builtin ''Error'' ''Cannot set headers after they are sent to the client'' st
      else
        (let code = status_int (status_code (res st))
         in if code < 100 \<or> 999 < code
            then throw_builtin ''RangeError'' ''Invalid status code'' st
            else (Normal JRes,
                  st\<lparr>res := \<lparr>status_code = JNum code,
                             sent = Some (if bodiless code then [] else JSON_fields body)\<rparr>\<rparr>)))"

definition body_field :: "state \<Rightarrow> string \<Rightarrow> jsval option" where
  "body_field st k = (case sent (res st) of None \<Rightarrow> None | Some b \<Rightarrow> map_of b k)"

definition boom :: string where
  "boom = [CHR 0xF0, CHR 0x9F, CHR 0x92, CHR 0xA5]"

text \<open>\<^verbatim>\<open>process.on('uncaughtException', ..)\<close> (index.ts, lines 58 to 63)\<close>

definition on_uncaughtException :: "jsval \<Rightarrow> state \<Rightarrow> state" where
  "on_uncaughtException err st =
     (let st1 = console_log [get_prop st err ''name'', get_prop st err ''message''] st;
          st2 = console_log [JStr (''UNCAUGHT EXCEPTION! '' @ boom @ '' Shutting down...'')] st1
      in process_exit 1 st2)"

text \<open>\<^verbatim>\<open>process.on('unhandledRejection', ..)\<close> (index.ts, lines 51 to 56). Reading
  \<^verbatim>\<open>reason.name\<close> of a missing reason raises inside the hook, which the other hook
  then receives. The \<^verbatim>\<open>throw\<close> after \<^verbatim>\<open>process.exit(1)\<close> is never reached.\<close>

definition on_unhandledRejection :: "jsval \<Rightarrow> state \<Rightarrow> state" where
  "on_unhandledRejection reason st =
     (if nullish reason
      then (case throw_builtin ''TypeError'' ''Cannot read properties of undefined'' st of
              (Throw e, st') \<Rightarrow> on_uncaughtException e st'
            | (Normal v, st') \<Rightarrow> st')
      else
        (let st1 = console_log [get_prop st reason ''name'', get_prop st reason ''message''] st;
             st2 = console_log [JStr (''UNHANDLED REJECTION! '' @ boom @ '' Shutting down...'')] st1
         in process_exit 1 st2))"

section \<open>Requests, handlers and the framework's dispatch\<close>

datatype http_method = GET | HEAD | POST | PUT | DELETE | PATCH | OPTIONS

record request =
  req_method :: http_method
  req_path :: string
  req_body :: jsval

type_synonym nextfn = "jsval \<Rightarrow> state \<Rightarrow> state"
type_synonym handler = "request \<Rightarrow> nextfn \<Rightarrow> state \<Rightarrow> completion \<times> state"
type_synonym error_handler = "jsval \<Rightarrow> request \<Rightarrow> nextfn \<Rightarrow> state \<Rightarrow> completion \<times> state"

datatype layer =
    Route http_method string handler
  | Use handler
  | UseError error_handler

text \<open>A rejected promise that nobody observes reaches the process-wide hook.\<close>

definition settle :: "jsval \<Rightarrow> state \<Rightarrow> state" where
  "settle v st = (case v of JPromise (Rejected e) \<Rightarrow> on_unhandledRejection e st | _ \<Rightarrow> st)"

text \<open>
  Modelled from the spec: the framework (express, version 4) is not under src/. Its
  router calls the layers in registration order (section 4.3 of the spec). A layer's
  handler is called inside a try block: what it throws is forwarded with \<^verbatim>\<open>next(err)\<close>,
  what it returns is ignored.
\<close>

definition handle_request :: "handler \<Rightarrow> request \<Rightarrow> nextfn \<Rightarrow> state \<Rightarrow> state" where
  "handle_request h req nxt st =
     (case h req nxt st of
        (Throw e, st') \<Rightarrow> nxt e st'
      | (Normal v, st') \<Rightarrow> settle v st')"

text \<open>Modelled from the spec: the same call of the framework (not under src/), for a
  layer that is error-handling middleware.\<close>

definition handle_error :: "error_handler \<Rightarrow> jsval \<Rightarrow> request \<Rightarrow> nextfn \<Rightarrow> state \<Rightarrow> state" where
  "handle_error h err req nxt st =
     (case h err req nxt st of
        (Throw e, st') \<Rightarrow> nxt e st'
      | (Normal v, st') \<Rightarrow> settle v st')"

text \<open>The lower-case form of an ASCII letter.\<close>

definition lower :: "char \<Rightarrow> char" where
  "lower c = (let n = (of_char c :: nat) in if 65 \<le> n \<and> n \<le> 90 then char_of (n + 32) else c)"

text \<open>
  Modelled from the spec: the matching of a request against a registered route is the
  framework's and not under src/; the spec (section 4.3) only says that the request is
  matched against the registered routes. The matching written here is the one of
  express's default settings for a path without parameters: the case of letters and one
  trailing slash are ignored.
\<close>

definition path_match :: "string \<Rightarrow> string \<Rightarrow> bool" where
  "path_match pat p = (map lower p = map lower pat \<or> map lower p = map lower pat @ ''/'')"

text \<open>Modelled from the spec: the framework's test whether a route serves the request's
  method, not under src/. In express a route registered for GET also serves HEAD.\<close>

definition handles_method :: "http_method \<Rightarrow> http_method \<Rightarrow> bool" where
  "handles_method m rm = (m = rm \<or> (m = HEAD \<and> rm = GET))"

text \<open>Modelled from the spec: the router of express (not under src/) reads the
  argument \<^verbatim>\<open>'route'\<close> of \<^verbatim>\<open>next\<close> as no error.\<close>

definition layerError :: "jsval \<Rightarrow> jsval" where
  "layerError err = (if err = JStr ''route'' then JNull else err)"

text \<open>The ghost record of a call of the layer at position \<open>i\<close>.\<close>

definition mark :: "nat \<Rightarrow> state \<Rightarrow> state" where
  "mark i st = st\<lparr>invoked := invoked st @ [i]\<rparr>"

text \<open>
  Modelled from the spec: the router's \<^verbatim>\<open>next(err)\<close> of express, which is not under
  src/. \<open>dispatch ls i req err\<close> is \<^verbatim>\<open>next(err)\<close> when the layers \<open>ls\<close> are still
  ahead, the first of them at position \<open>i\<close> of the stack. With a truthy \<open>err\<close> only
  error-handling middleware (four parameters) is called; without one, only routes that
  match the request and ordinary middleware. The argument \<^verbatim>\<open>'route'\<close> counts as no
  error and \<^verbatim>\<open>'router'\<close> leaves the router. A request that runs past the last layer is
  handed to the framework's default handler, which is outside this model.
\<close>

primrec dispatch :: "layer list \<Rightarrow> nat \<Rightarrow> request \<Rightarrow> jsval \<Rightarrow> state \<Rightarrow> state" where
  "dispatch [] i req err st =
     (if layerError err = JStr ''router'' then st\<lparr>fell_through := Some JNull\<rparr>
      else st\<lparr>fell_through := Some (layerError err)\<rparr>)"
| "dispatch (l # ls) i req err st =
     (if layerError err = JStr ''router'' then st\<lparr>fell_through := Some JNull\<rparr>
      else
        (case l of
           Route m pat h \<Rightarrow>
             (if \<not> truthy (layerError err) \<and> path_match pat (req_path req)
                 \<and> handles_method (req_method req) m
              then handle_request h req (\<lambda>e s. dispatch ls (Suc i) req e s) (mark i st)
              else dispatch ls (Suc i) req (layerError err) st)
         | Use h \<Rightarrow>
             (if \<not> truthy (layerError err)
              then handle_request h req (\<lambda>e s. dispatch ls (Suc i) req e s) (mark i st)
              else dispatch ls (Suc i) req (layerError err) st)
         | UseError h \<Rightarrow>
             (if truthy (layerError err)
              then handle_error h (layerError err) req (\<lambda>e s. dispatch ls (Suc i) req e s)
                     (mark i st)
              else dispatch ls (Suc i) req (layerError err) st)))"

section \<open>The async adapter (utils/asyncWrapper.ts)\<close>

text \<open>
  \<^verbatim>\<open>Promise.resolve(handler(req, res, next)).catch((err) => next(err))\<close>: the handler
  runs first; what it throws before returning a promise is not caught here. Only a
  rejected promise makes the adapter act. The adapter itself returns \<^verbatim>\<open>undefined\<close>.
\<close>

definition asyncWrapper :: "handler \<Rightarrow> handler" where
  "asyncWrapper handler req nxt st =
     (case handler req nxt st of
        (Throw e, st') \<Rightarrow> (Throw e, st')
      | (Normal v, st') \<Rightarrow>
          (case Promise_resolve v of
             Rejected err \<Rightarrow> (Normal JUndefined, nxt err st')
           | Fulfilled x \<Rightarrow> (Normal JUndefined, st')
           | Pending \<Rightarrow> (Normal JUndefined, st')))"

section \<open>The application (index.ts)\<close>

text \<open>
  Modelled from the spec: the two body-parsing layers (package \<^verbatim>\<open>body-parser\<close>, not
  under src/) are external collaborators (section 1 of the spec). A request reaches the
  core with its body parsed, in \<open>req_body req\<close>, and the layers pass it on.
\<close>

definition bodyParser_json :: handler where
  "bodyParser_json req nxt st = (Normal JUndefined, nxt JUndefined st)"

definition bodyParser_urlencoded :: handler where
  "bodyParser_urlencoded req nxt st = (Normal JUndefined, nxt JUndefined st)"

text \<open>index.ts, lines 20 to 22: \<^verbatim>\<open>customFunction\<close>, an async function whose body
  throws a new ApiError\<close>

definition customFunction_body :: async_body where
  "customFunction_body st =
     (case new_ApiError BAD_REQUEST ''This is just a bad request!'' st of
        (e, st') \<Rightarrow> (Some (Throw e), st'))"

definition customFunction :: "state \<Rightarrow> completion \<times> state" where
  "customFunction = async customFunction_body"

text \<open>index.ts, lines 14 to 17: the handler given to the adapter for GET /protected\<close>

definition protected_handler :: handler where
  "protected_handler req nxt =
     async (\<lambda>st. case customFunction st of
                   (Throw e, st1) \<Rightarrow> (Some (Throw e), st1)
                 | (Normal p, st1) \<Rightarrow> await p (\<lambda>x s. (Some (Normal JUndefined), s)) st1)"

text \<open>index.ts, lines 24 to 29: the handler for POST /post\<close>

definition post_handler :: handler where
  "post_handler req nxt =
     async (\<lambda>st. case res_send [(''message'', JStr ''Hello World from post!'')]
                        (res_status (JNum 200) (console_log [req_body req] st)) of
                   (c, st') \<Rightarrow> (Some c, st'))"

text \<open>index.ts, line 31: the catch-all\<close>

definition catch_all :: handler where
  "catch_all req nxt st =
     (case new_NotFoundError (req_path req) st of (e, st') \<Rightarrow> (Normal JUndefined, nxt e st'))"

text \<open>index.ts, lines 33 to 41: the error-formatting middleware\<close>

definition error_middleware :: error_handler where
  "error_middleware err req nxt st =
     (if nullish err then throw_builtin ''TypeError'' ''Cannot read properties of undefined'' st
      else
        (let statusCode = js_or (get_prop st err ''statusCode'') (JNum 500);
             st1 = res_status statusCode st
         in res_send
              [(''success'', JBool False),
               (''message'', get_prop st1 err ''message''),
               (''stack'', get_prop st1 err ''stack'')] st1))"

text \<open>The stack of layers, in the order of registration (index.ts, lines 9 to 41).\<close>

definition app :: "layer list" where
  "app =
     [Use bodyParser_json,
      Use bodyParser_urlencoded,
      Route GET ''/protected'' (asyncWrapper protected_handler),
      Route POST ''/post'' post_handler,
      Use catch_all,
      UseError error_middleware]"

text \<open>Positions in \<open>app\<close> of the two routes, the catch-all and the error formatter.\<close>

definition protected_route :: nat where
  "protected_route = 2"

definition post_route :: nat where
  "post_route = 3"

definition catch_all_stage :: nat where
  "catch_all_stage = 4"

definition format_stage :: nat where
  "format_stage = 5"

text \<open>A request arrives with a fresh response object (status 200, nothing sent) and
  enters the stack at its first layer.\<close>

definition begin_request :: "state \<Rightarrow> state" where
  "begin_request st =
     st\<lparr>res := \<lparr>status_code = JNum 200, sent = None\<rparr>, fell_through := None, invoked := []\<rparr>"

definition handle :: "request \<Rightarrow> state \<Rightarrow> state" where
  "handle req st = dispatch app 0 req JUndefined (begin_request st)"

section \<open>Auxiliary notions and sample inputs\<close>

text \<open>The object that \<^verbatim>\<open>new ApiError(S, M)\<close> leaves in the store, when the engine's
  call-site frames read \<open>fr\<close> (lemma \<open>new_ApiError_eq\<close> below).\<close>

definition ApiError_obj :: "int \<Rightarrow> string \<Rightarrow> string \<Rightarrow> jsobj" where
  "ApiError_obj S M fr =
     [(''stack'', JStr (error_header ''Error'' M @ fr)),
      (''message'', JStr M),
      (''name'', JStr ''Error''),
      (''statusCode'', JNum S)]"

text \<open>A valid HTTP status, in the words of the spec's data model: an integer status
  code, which HTTP takes from 100 to 599.\<close>

definition valid_http_status :: "jsval \<Rightarrow> bool" where
  "valid_http_status v = (case v of JNum n \<Rightarrow> 100 \<le> n \<and> n \<le> 599 | _ \<Rightarrow> False)"

text \<open>A \<^verbatim>\<open>next\<close> that does nothing, and a process state: the store holds one empty
  object (a parsed body \<^verbatim>\<open>{}\<close>), no environment variable is set.\<close>

definition stop :: nextfn where
  "stop e st = st"

definition sample_state :: state where
  "sample_state =
     \<lparr>heap = [[]],
      res = \<lparr>status_code = JNum 200, sent = None\<rparr>,
      console = [],
      exit_code = None,
      fell_through = None,
      invoked = [],
      env = Map.empty,
      frames = CHR 0x0A # ''    at index.ts''\<rparr>"


definition get_protected :: request where
  "get_protected = \<lparr>req_method = GET, req_path = ''/protected'', req_body = JUndefined\<rparr>"

definition post_post :: request where
  "post_post = \<lparr>req_method = POST, req_path = ''/post'', req_body = JRef 0\<rparr>"

definition get_unknown :: request where
  "get_unknown = \<lparr>req_method = GET, req_path = ''/unknown-path'', req_body = JUndefined\<rparr>"



text \<open>The sample state after the handler for /protected has run, the sample state after
  the handler for /post has run, and a \<^verbatim>\<open>next\<close> that leads to the error formatter.\<close>

definition rejected_state :: state where
  "rejected_state =
     sample_state\<lparr>heap := [[], ApiError_obj 400 ''This is just a bad request!''
                                   (frames sample_state)]\<rparr>"







section \<open>Basic facts\<close>

lemma new_ApiError_eq:
  "new_ApiError S M st =
     (JRef (length (heap st)), st\<lparr>heap := heap st @ [ApiError_obj S M (frames st)]\<rparr>)"
  by (simp add: new_ApiError_def ApiError_constructor_def alloc_def captureStackTrace_def
      Error_super_def prop_string_def ApiError_obj_def)



lemma customFunction_eq:
  "customFunction st =
     (Normal (JPromise (Rejected (JRef (length (heap st))))),
      st\<lparr>heap := heap st @ [ApiError_obj 400 ''This is just a bad request!'' (frames st)]\<rparr>)"
  by (simp add: customFunction_def customFunction_body_def async_def new_ApiError_eq
      BAD_REQUEST_def)

lemma protected_handler_eq:
  "protected_handler req nxt st =
     (Normal (JPromise (Rejected (JRef (length (heap st))))),
      st\<lparr>heap := heap st @ [ApiError_obj 400 ''This is just a bad request!'' (frames st)]\<rparr>)"
  by (simp add: protected_handler_def async_def customFunction_eq await_def Promise_resolve_def)

text \<open>The formatter on a request that has not been answered yet.\<close>

lemma error_middleware_ok:
  assumes "\<not> nullish err" and "sent (res st) = None"
    and "100 \<le> status_int (js_or (get_prop st err ''statusCode'') (JNum 500))"
    and "status_int (js_or (get_prop st err ''statusCode'') (JNum 500)) \<le> 999"
    and "\<not> bodiless (status_int (js_or (get_prop st err ''statusCode'') (JNum 500)))"
  shows "error_middleware err req nxt st =
     (Normal JRes,
      st\<lparr>res := \<lparr>status_code =
                   JNum (status_int (js_or (get_prop st err ''statusCode'') (JNum 500))),
                 sent = Some (JSON_fields
                   [(''success'', JBool False),
                    (''message'', get_prop st err ''message''),
                    (''stack'', get_prop st err ''stack'')])\<rparr>\<rparr>)"
  using assms
  apply (simp add: error_middleware_def res_send_def res_status_def Let_def)
  apply (cases err; simp add: get_prop_def nullish_def)
  done

lemma post_handler_eq:
  assumes "sent (res st) = None"
  shows "post_handler req nxt st =
     (Normal (JPromise (Fulfilled JRes)),
      st\<lparr>console := console st @ [[req_body req]],
         res := \<lparr>status_code = JNum 200,
                 sent = Some [(''message'', JStr ''Hello World from post!'')]\<rparr>\<rparr>)"
  using assms
  by (simp add: post_handler_def async_def res_send_def res_status_def console_log_def
      JSON_fields_def Promise_resolve_def to_int32_def bodiless_def)

section \<open>What the application does with a request\<close>

text \<open>Three kinds of request: one that the route for /protected serves, one that the
  route for /post serves, and every other one.\<close>

lemma handle_protected:
  assumes "req_method req = GET \<or> req_method req = HEAD"
    and "path_match ''/protected'' (req_path req)"
  shows "handle req st =
     st\<lparr>heap := heap st @ [ApiError_obj 400 ''This is just a bad request!'' (frames st)],
        res := \<lparr>status_code = JNum 400,
                sent = Some [(''success'', JBool False),
                             (''message'', JStr ''This is just a bad request!''),
                             (''stack'', JStr (''Error: This is just a bad request!'' @ frames st))]\<rparr>,
        fell_through := None,
        invoked := [0, 1, 2, 5]\<rparr>"
  using assms
  by (simp add: handle_def app_def begin_request_def layerError_def handle_request_def
      bodyParser_json_def bodyParser_urlencoded_def mark_def settle_def handles_method_def
      asyncWrapper_def protected_handler_eq Promise_resolve_def handle_error_def
      error_middleware_ok nullish_def get_prop_def ApiError_obj_def js_or_def JSON_fields_def
      error_header_def to_int32_def bodiless_def)

lemma handle_post:
  assumes "req_method req = POST" and "path_match ''/post'' (req_path req)"
  shows "handle req st =
     st\<lparr>console := console st @ [[req_body req]],
        res := \<lparr>status_code = JNum 200,
                sent = Some [(''message'', JStr ''Hello World from post!'')]\<rparr>,
        fell_through := None,
        invoked := [0, 1, 3]\<rparr>"
  using assms
  by (simp add: handle_def app_def begin_request_def layerError_def handle_request_def
      bodyParser_json_def bodyParser_urlencoded_def mark_def settle_def handles_method_def
      post_handler_eq)

lemma handle_unmatched:
  assumes "\<not> ((req_method req = GET \<or> req_method req = HEAD)
              \<and> path_match ''/protected'' (req_path req))"
    and "\<not> (req_method req = POST \<and> path_match ''/post'' (req_path req))"
  shows "handle req st =
     st\<lparr>heap := heap st @
          [ApiError_obj 404 (''The requested path '' @ req_path req @ '' not found!'') (frames st)],
        res := \<lparr>status_code = JNum 404,
                sent = Some
                  [(''success'', JBool False),
                   (''message'', JStr (''The requested path '' @ req_path req @ '' not found!'')),
                   (''stack'', JStr (''Error: The requested path '' @ req_path req
                                      @ '' not found!'' @ frames st))]\<rparr>,
        fell_through := None,
        invoked := [0, 1, 4, 5]\<rparr>"
  using assms
  apply (simp add: handle_def app_def begin_request_def layerError_def handle_request_def
      bodyParser_json_def bodyParser_urlencoded_def mark_def settle_def handles_method_def
      catch_all_def new_NotFoundError_def new_ApiError_eq NOT_FOUND_def handle_error_def
      error_middleware_ok nullish_def get_prop_def ApiError_obj_def js_or_def JSON_fields_def
      error_header_def to_int32_def bodiless_def)
  apply (cases "req_method req"; simp)
  done

lemma request_cases:
  obtains (protected) "req_method req = GET \<or> req_method req = HEAD"
      "path_match ''/protected'' (req_path req)"
  | (post) "req_method req = POST" "path_match ''/post'' (req_path req)"
  | (unmatched) "\<not> ((req_method req = GET \<or> req_method req = HEAD)
              \<and> path_match ''/protected'' (req_path req))"
      "\<not> (req_method req = POST \<and> path_match ''/post'' (req_path req))"
  by blast

section \<open>The adapter and the process\<close>



text \<open>The formatter, reached by a forwarded value, never ends the process.\<close>

lemma exit_code_format:
  "exit_code (dispatch [UseError error_middleware] i req e st) = exit_code st"
  by (simp add: layerError_def handle_error_def error_middleware_def res_send_def
      res_status_def throw_builtin_def alloc_def mark_def settle_def Let_def nullish_def
      split: prod.splits completion.splits)

text \<open>A forwarded value that the framework regards as an error (a truthy one, as every
  error object is) makes the formatter run, once. A falsy value passed to \<^verbatim>\<open>next\<close> is
  no error for the framework.\<close>

lemma formatter_invoked_once:
  assumes "truthy (layerError e)" and "layerError e \<noteq> JStr ''router''"
  shows "invoked (dispatch [UseError error_middleware] i req e st) = invoked st @ [i]"
  using assms
  by (simp add: handle_error_def error_middleware_def res_send_def
      res_status_def throw_builtin_def alloc_def mark_def settle_def Let_def nullish_def
      split: prod.splits completion.splits)

lemma formatter_skipped:
  assumes "\<not> truthy e"
  shows "invoked (dispatch [UseError error_middleware] i req e st) = invoked st"
  using assms by (auto simp add: layerError_def)

text \<open>Without the adapter, a handler whose promise rejects ends the process: the
  rejection reaches the hook for unhandled rejections.\<close>

lemma unwrapped_rejection_terminates:
  assumes "handler req nxt st = (Normal (JPromise (Rejected e)), st')"
  shows "exit_code (handle_request handler req nxt st) = Some 1"
  using assms
  by (simp add: handle_request_def settle_def on_unhandledRejection_def process_exit_def
      throw_builtin_def alloc_def on_uncaughtException_def Let_def)

text \<open>What a handler throws before it returns a promise passes through the adapter;
  it is the framework's layer that forwards it.\<close>

lemma asyncWrapper_sync_throw:
  assumes "handler req nxt st = (Throw e, st')"
  shows "asyncWrapper handler req nxt st = (Throw e, st')"
    and "handle_request (asyncWrapper handler) req nxt st = nxt e st'"
  using assms by (simp_all add: asyncWrapper_def handle_request_def)

section \<open>Error objects in the store\<close>

text \<open>A value that the framework regards as an error, forwarded from any position of
  the application's stack, reaches the formatter and no other layer.\<close>

lemma dispatch_drop_app_error:
  assumes "truthy e" and "e \<noteq> JStr ''route''" and "e \<noteq> JStr ''router''"
  shows "dispatch (drop n app) n req e st =
     (if n \<le> 5
      then handle_error error_middleware e req (dispatch [] 6 req) (mark 5 st)
      else st\<lparr>fell_through := Some e\<rparr>)"
proof -
  consider "n = 0" | "n = 1" | "n = 2" | "n = 3" | "n = 4" | "n = 5" | "6 \<le> n"
    by linarith
  then show ?thesis
  proof cases
    case 7
    then have "drop n app = []"
      by (simp add: app_def)
    with 7 assms show ?thesis
      by (simp add: layerError_def)
  qed (use assms in \<open>simp_all add: app_def layerError_def eval_nat_numeral\<close>)
qed

lemma dispatch_drop_app_ref:
  "dispatch (drop n app) n req (JRef a) st =
     (if n \<le> 5
      then handle_error error_middleware (JRef a) req (dispatch [] 6 req) (mark 5 st)
      else st\<lparr>fell_through := Some (JRef a)\<rparr>)"
  by (rule dispatch_drop_app_error) simp_all


lemma get_prop_handle_error_format:
  assumes "a < length (heap st)"
  shows "get_prop (handle_error error_middleware err req (dispatch [] j req) st) (JRef a) k
           = get_prop st (JRef a) k"
  using assms
  by (simp add: handle_error_def error_middleware_def res_send_def res_status_def
      throw_builtin_def alloc_def settle_def layerError_def get_prop_def Let_def nth_append)

lemma get_prop_error_middleware:
  assumes "a < length (heap st)"
  shows "get_prop (snd (error_middleware err req nxt st)) (JRef a) k = get_prop st (JRef a) k"
  using assms
  by (simp add: error_middleware_def res_send_def res_status_def
      throw_builtin_def alloc_def get_prop_def Let_def nth_append)




section \<open>The claims\<close>











text \<open>
  C5: a GET /protected request, whose wrapped handler throws
  ApiError(400, "This is just a bad request!"), is answered with status 400 and the body
  {success: false, message: "This is just a bad request!", stack: ...}, the stack being
  a non-empty trace.
\<close>

theorem get_protected_bad_request:
  assumes "req_method req = GET" and "path_match ''/protected'' (req_path req)"
  shows "status_code (res (handle req st)) = JNum 400
     \<and> (\<exists>s. s \<noteq> [] \<and> sent (res (handle req st)) =
            Some [(''success'', JBool False),
                  (''message'', JStr ''This is just a bad request!''),
                  (''stack'', JStr s)])"
  using assms by (simp add: handle_protected)

theorem get_protected_bad_request_witness:
  "req_method get_protected = GET \<and> path_match ''/protected'' (req_path get_protected)
     \<and> status_code (res (handle get_protected sample_state)) = JNum 400
     \<and> (\<exists>s. s \<noteq> [] \<and> sent (res (handle get_protected sample_state)) =
            Some [(''success'', JBool False),
                  (''message'', JStr ''This is just a bad request!''),
                  (''stack'', JStr s)])"
proof -
  have m: "req_method get_protected = GET"
    by (simp add: get_protected_def)
  have p: "path_match ''/protected'' (req_path get_protected)"
    by (simp add: get_protected_def path_match_def)
  show ?thesis
    using m p get_protected_bad_request [OF m p, of sample_state] by simp
qed

text \<open>
  C6: every POST /post request, whatever its body (in particular the body {}), is
  answered with status 200 and the body {message: "Hello World from post!"}.
\<close>

theorem post_hello_world:
  assumes "req_method req = POST" and "path_match ''/post'' (req_path req)"
  shows "status_code (res (handle req st)) = JNum 200
     \<and> sent (res (handle req st)) = Some [(''message'', JStr ''Hello World from post!'')]"
  using assms by (simp add: handle_post)

theorem post_hello_world_witness:
  "req_method post_post = POST \<and> path_match ''/post'' (req_path post_post)
     \<and> req_body post_post = JRef 0 \<and> heap sample_state ! 0 = []
     \<and> status_code (res (handle post_post sample_state)) = JNum 200
     \<and> sent (res (handle post_post sample_state)) =
         Some [(''message'', JStr ''Hello World from post!'')]"
proof -
  have a: "req_method post_post = POST"
    by (simp add: post_post_def)
  have b: "path_match ''/post'' (req_path post_post)"
    by (simp add: post_post_def path_match_def)
  show ?thesis
    using a b post_hello_world [OF a b, of sample_state]
    by (simp add: post_post_def sample_state_def)
qed

text \<open>
  C7, as stated: every constructed ApiError has a statusCode that is a valid HTTP status.
  The constructor stores whatever number it is given: ApiError(-1, "x") has the
  statusCode -1.
\<close>

theorem ApiError_invalid_status_counterexample:
  "\<not> valid_http_status
       (get_prop (snd (new_ApiError (- 1) ''x'' sample_state))
          (fst (new_ApiError (- 1) ''x'' sample_state)) ''statusCode'')"
  by (simp add: new_ApiError_eq get_prop_def ApiError_obj_def valid_http_status_def)

text \<open>
  C7, amended: a constructed ApiError carries the statusCode and the message it was
  constructed with and the trace captured then; the constructor does not check the
  code, and the two codes the application itself uses (400 and 404) are valid. No
  stage of the pipeline changes the object: neither forwarding it with \<^verbatim>\<open>next\<close> from
  any position of the application's stack, nor the formatter.
\<close>

theorem ApiError_fields_preserved:
  assumes "new_ApiError S M st = (e, st1)"
  shows "get_prop st1 e ''statusCode'' = JNum S
     \<and> get_prop st1 e ''message'' = JStr M
     \<and> get_prop st1 e ''stack'' = JStr (error_header ''Error'' M @ frames st)
     \<and> (\<forall>n k. get_prop (dispatch (drop n app) n req e st1) e k = get_prop st1 e k)
     \<and> (\<forall>k. get_prop (snd (error_middleware e req nxt st1)) e k = get_prop st1 e k)
     \<and> valid_http_status (JNum BAD_REQUEST) \<and> valid_http_status (JNum NOT_FOUND)"
proof -
  from assms have e: "e = JRef (length (heap st))"
    and st1: "st1 = st\<lparr>heap := heap st @ [ApiError_obj S M (frames st)]\<rparr>"
    by (simp_all add: new_ApiError_eq)
  have lt: "length (heap st) < length (heap st1)"
    by (simp add: st1)
  have "get_prop st1 e ''statusCode'' = JNum S"
    by (simp add: e st1 get_prop_def ApiError_obj_def)
  moreover have "get_prop st1 e ''message'' = JStr M"
    by (simp add: e st1 get_prop_def ApiError_obj_def)
  moreover have "get_prop st1 e ''stack'' = JStr (error_header ''Error'' M @ frames st)"
    by (simp add: e st1 get_prop_def ApiError_obj_def)
  moreover have "get_prop (dispatch (drop n app) n req e st1) e k = get_prop st1 e k" for n k
  proof (cases "n \<le> 5")
    case True
    have "length (heap st) < length (heap (mark 5 st1))"
      using lt by (simp add: mark_def)
    then have "get_prop (handle_error error_middleware e req (dispatch [] 6 req) (mark 5 st1)) e k
        = get_prop (mark 5 st1) e k"
      unfolding e by (rule get_prop_handle_error_format)
    with True show ?thesis
      by (simp add: e dispatch_drop_app_ref get_prop_def mark_def)
  next
    case False
    then show ?thesis
      by (simp add: e dispatch_drop_app_ref get_prop_def)
  qed
  moreover have "get_prop (snd (error_middleware e req nxt st1)) e k = get_prop st1 e k" for k
    unfolding e using lt by (rule get_prop_error_middleware)
  moreover have "valid_http_status (JNum BAD_REQUEST)" "valid_http_status (JNum NOT_FOUND)"
    by (simp_all add: valid_http_status_def BAD_REQUEST_def NOT_FOUND_def)
  ultimately show ?thesis
    by blast
qed

theorem ApiError_fields_preserved_witness:
  "new_ApiError 400 ''This is just a bad request!'' sample_state = (JRef 1, rejected_state)
   \<and> get_prop rejected_state (JRef 1) ''statusCode'' = JNum 400
   \<and> get_prop (dispatch (drop 3 app) 3 get_protected (JRef 1) rejected_state)
       (JRef 1) ''statusCode'' = JNum 400
   \<and> get_prop (snd (error_middleware (JRef 1) get_protected stop rejected_state))
       (JRef 1) ''message'' = JStr ''This is just a bad request!''"
proof -
  have a: "new_ApiError 400 ''This is just a bad request!'' sample_state
      = (JRef 1, rejected_state)"
    by (simp add: new_ApiError_eq sample_state_def rejected_state_def)
  show ?thesis
    using a ApiError_fields_preserved [OF a, of get_protected stop] by simp
qed




text \<open>
  C9: within one request the stages run in the order of the stack and none is entered
  twice: the positions of the layers called are strictly increasing. The catch-all is
  called exactly when no route was; the formatter is called at most once, after the
  catch-all whenever that ran, and nothing is called after the formatter.
\<close>

theorem stages_in_order:
  "sorted_wrt (<) (invoked (handle req st))
     \<and> count_list (invoked (handle req st)) format_stage \<le> 1
     \<and> (catch_all_stage \<in> set (invoked (handle req st)) \<longleftrightarrow>
          protected_route \<notin> set (invoked (handle req st))
          \<and> post_route \<notin> set (invoked (handle req st)))
     \<and> (catch_all_stage \<in> set (invoked (handle req st)) \<longrightarrow>
          format_stage \<in> set (invoked (handle req st)))
     \<and> (format_stage \<in> set (invoked (handle req st)) \<longrightarrow>
          last (invoked (handle req st)) = format_stage)"
proof (cases req rule: request_cases)
  case protected
  then show ?thesis
    by (simp add: handle_protected format_stage_def catch_all_stage_def protected_route_def
        post_route_def)
next
  case post
  then show ?thesis
    by (simp add: handle_post format_stage_def catch_all_stage_def protected_route_def
        post_route_def)
next
  case unmatched
  then show ?thesis
    by (simp add: handle_unmatched format_stage_def catch_all_stage_def protected_route_def
        post_route_def)
qed

theorem stages_in_order_witness:
  "catch_all_stage \<in> set (invoked (handle get_unknown sample_state))
     \<and> protected_route \<notin> set (invoked (handle get_unknown sample_state))
     \<and> post_route \<notin> set (invoked (handle get_unknown sample_state))
     \<and> format_stage \<in> set (invoked (handle get_unknown sample_state))
     \<and> last (invoked (handle get_unknown sample_state)) = format_stage
     \<and> count_list (invoked (handle get_unknown sample_state)) format_stage \<le> 1"
proof -
  have a: "\<not> ((req_method get_unknown = GET \<or> req_method get_unknown = HEAD)
              \<and> path_match ''/protected'' (req_path get_unknown))"
    by (simp add: get_unknown_def path_match_def)
  have b: "\<not> (req_method get_unknown = POST \<and> path_match ''/post'' (req_path get_unknown))"
    by (simp add: get_unknown_def)
  have c: "catch_all_stage \<in> set (invoked (handle get_unknown sample_state))"
    by (simp add: handle_unmatched [OF a b] catch_all_stage_def)
  show ?thesis
    using c stages_in_order [of get_unknown sample_state] by blast
qed

text \<open>
  C10: for every GET /protected request the handler's computation fails:
  \<^verbatim>\<open>customFunction\<close> always returns a promise rejected with a new
  ApiError(400, "This is just a bad request!"), so does the handler that awaits it, and
  the request is answered with status 400 and success false, never with a 200.
\<close>

theorem protected_always_fails:
  "customFunction st =
     (Normal (JPromise (Rejected (JRef (length (heap st))))),
      st\<lparr>heap := heap st @
            [ApiError_obj BAD_REQUEST ''This is just a bad request!'' (frames st)]\<rparr>)
   \<and> protected_handler req nxt st =
     (Normal (JPromise (Rejected (JRef (length (heap st))))),
      st\<lparr>heap := heap st @
            [ApiError_obj BAD_REQUEST ''This is just a bad request!'' (frames st)]\<rparr>)
   \<and> (req_method req = GET \<and> path_match ''/protected'' (req_path req) \<longrightarrow>
        status_code (res (handle req st)) = JNum 400
        \<and> status_code (res (handle req st)) \<noteq> JNum 200
        \<and> body_field (handle req st) ''success'' = Some (JBool False))"
  by (simp add: customFunction_eq protected_handler_eq handle_protected body_field_def
      BAD_REQUEST_def)

theorem protected_always_fails_witness:
  "req_method get_protected = GET \<and> path_match ''/protected'' (req_path get_protected)
   \<and> status_code (res (handle get_protected sample_state)) \<noteq> JNum 200
   \<and> fst (customFunction sample_state) = Normal (JPromise (Rejected (JRef 1)))"
proof -
  have a: "req_method get_protected = GET"
    by (simp add: get_protected_def)
  have b: "path_match ''/protected'' (req_path get_protected)"
    by (simp add: get_protected_def path_match_def)
  show ?thesis
    using a b protected_always_fails [of sample_state get_protected stop]
    by (simp add: sample_state_def)
qed

end
